theory Spec2Isabelle
  imports Main
begin

section \<open>Text primitives\<close>

text \<open>
  Python \<open>str\<close> values are modelled as HOL strings. The model is exact for ASCII
  text; the few non-ASCII characters of the source's literals are written as their UTF-8
  bytes. \<open>is_space\<close> is the ASCII part of \<open>str.isspace\<close>, which is also what
  the regular-expression class \<open>\s\<close> matches: tab, line feed, vertical tab, form
  feed, carriage return, the four separators 0x1C..0x1F and the blank.
\<close>

definition nl :: char where
  "nl = CHR 0x0A"

definition is_space :: "char \<Rightarrow> bool" where
  "is_space c = (let n = (of_char c :: nat) in (9 \<le> n \<and> n \<le> 13) \<or> (28 \<le> n \<and> n \<le> 32))"

definition strip :: "string \<Rightarrow> string" where
  "strip s = rev (dropWhile is_space (rev (dropWhile is_space s)))"

definition lower_char :: "char \<Rightarrow> char" where
  "lower_char c = (let n = (of_char c :: nat) in if 65 \<le> n \<and> n \<le> 90 then char_of (n + 32) else c)"

definition lower :: "string \<Rightarrow> string" where
  "lower s = map lower_char s"

text \<open>\<open>contains p s\<close> is Python's \<open>p in s\<close> on strings.\<close>

fun contains :: "string \<Rightarrow> string \<Rightarrow> bool" where
  "contains p [] = (p = [])"
| "contains p (c # cs) = (take (length p) (c # cs) = p \<or> contains p cs)"

definition em_dash :: string where
  "em_dash = [CHR 0xE2, CHR 0x80, CHR 0x94]"

definition warning_sign :: string where
  "warning_sign = [CHR 0xE2, CHR 0x9A, CHR 0xA0, CHR 0xEF, CHR 0xB8, CHR 0x8F]"

section \<open>Quota classification\<close>

definition QUOTA_PHRASES :: "string list" where
  "QUOTA_PHRASES = [''RESOURCE_EXHAUSTED'', ''quota'', ''rate limit'', ''429'', ''Too Many Requests'']"

text \<open>\<open>_is_quota_error\<close>, on the message \<open>str(exc)\<close> of the exception.\<close>

definition is_quota_error :: "string \<Rightarrow> bool" where
  "is_quota_error msg = list_ex (\<lambda>p. contains (lower p) (lower msg)) QUOTA_PHRASES"

section \<open>Code sanitizer\<close>

text \<open>
  \<open>_clean_code\<close> applies two substitutions with \<open>re.MULTILINE\<close> and then
  \<open>strip\<close>. \<open>re.sub\<close> scans from the left and deletes every match it finds.

  The first pattern is \<^verbatim>\<open>^\s*```(?:python)?\s*\n?\<close>. At a line start it matches a
  whitespace run, the three backticks, the tag \<open>python\<close> when it follows, and the
  whitespace run after it (which already swallows any newline). \<open>match_open\<close>
  matches at the head of its argument and returns the text after the match, together
  with the fact whether the match ended with a newline, that is, whether the scan
  resumes at a line start.
\<close>

definition fence :: string where
  "fence = ''```''"


definition match_open :: "string \<Rightarrow> (bool \<times> string) option" where
  "match_open s =
     (let s1 = dropWhile is_space s in
      if take 3 s1 = fence then
        let s2 = drop 3 s1;
            s3 = (if take 6 s2 = ''python'' then drop 6 s2 else s2);
            ws = takeWhile is_space s3
        in Some (ws \<noteq> [] \<and> last ws = nl, dropWhile is_space s3)
      else None)"

lemma take_fence_length: "take 3 s = fence \<Longrightarrow> 3 \<le> length s"
proof -
  assume "take 3 s = fence"
  then have "length (take 3 s) = 3" by (simp add: fence_def)
  then show ?thesis by simp
qed

lemma match_open_shorter: "match_open s = Some (b, r) \<Longrightarrow> length r < length s"
proof -
  assume m: "match_open s = Some (b, r)"
  define s1 where "s1 = dropWhile is_space s"
  define s2 where "s2 = drop 3 s1"
  define s3 where "s3 = (if take 6 s2 = ''python'' then drop 6 s2 else s2)"
  from m have f: "take 3 s1 = fence" and r: "r = dropWhile is_space s3"
    by (auto simp: match_open_def Let_def s1_def s2_def s3_def split: if_splits)
  from f have "3 \<le> length s1" by (rule take_fence_length)
  then have "length s2 < length s1" by (simp add: s2_def)
  moreover have "length s3 \<le> length s2" by (simp add: s3_def)
  moreover have "length r \<le> length s3" unfolding r by (rule length_dropWhile_le)
  moreover have "length s1 \<le> length s" unfolding s1_def by (rule length_dropWhile_le)
  ultimately show ?thesis by linarith
qed

text \<open>
  \<open>sub_open bol s\<close> is the first \<open>re.sub\<close>; \<open>bol\<close> says whether the
  scan position is at the start of a line, where alone \<open>^\<close> matches.
\<close>

function sub_open :: "bool \<Rightarrow> string \<Rightarrow> string" where
  "sub_open bol [] = []"
| "sub_open bol (c # cs) =
     (case (if bol then match_open (c # cs) else None) of
        Some (bol', rest) \<Rightarrow> sub_open bol' rest
      | None \<Rightarrow> c # sub_open (c = nl) cs)"
  by pat_completeness auto
termination
  by (relation "measure (\<lambda>(bol, s). length s)")
     (auto split: if_splits dest: match_open_shorter)

text \<open>
  The second pattern is \<^verbatim>\<open>\n?\s*```\s*$\<close>. It matches a whitespace run, the three
  backticks and a whitespace run that must stop at an end of line: at the end of the
  text, or, after backtracking, just before the last newline of that run.
\<close>

definition match_close :: "string \<Rightarrow> string option" where
  "match_close s =
     (let s1 = dropWhile is_space s in
      if take 3 s1 = fence then
        let s2 = drop 3 s1;
            ws = takeWhile is_space s2;
            s3 = dropWhile is_space s2
        in if s3 = [] then Some []
           else if nl \<in> set ws then Some (nl # rev (takeWhile (\<lambda>c. c \<noteq> nl) (rev ws)) @ s3)
           else None
      else None)"

lemma match_close_shorter:
  assumes m: "match_close s = Some r"
  shows "length r < length s"
proof -
  define s1 where "s1 = dropWhile is_space s"
  define s2 where "s2 = drop 3 s1"
  define ws where "ws = takeWhile is_space s2"
  define s3 where "s3 = dropWhile is_space s2"
  have eq: "match_close s =
      (if take 3 s1 = fence then
         (if s3 = [] then Some []
          else if nl \<in> set ws then Some (nl # rev (takeWhile (\<lambda>c. c \<noteq> nl) (rev ws)) @ s3)
          else None)
       else None)"
    unfolding match_close_def Let_def s1_def s2_def ws_def s3_def by (rule refl)
  have f: "take 3 s1 = fence"
    using m unfolding eq by (cases "take 3 s1 = fence") simp_all
  then have "3 \<le> length s1" by (rule take_fence_length)
  then have l2: "length s2 + 3 = length s1" by (simp add: s2_def)
  have l1: "length s1 \<le> length s" unfolding s1_def by (rule length_dropWhile_le)
  have "length ws + length s3 = length (takeWhile is_space s2 @ dropWhile is_space s2)"
    unfolding ws_def s3_def by (simp only: length_append)
  then have sp: "length ws + length s3 = length s2"
    by (simp only: takeWhile_dropWhile_id)
  have "length (takeWhile (\<lambda>c. c \<noteq> nl) (rev ws)) \<le> length (rev ws)"
    by (rule length_takeWhile_le)
  then have tw: "length (takeWhile (\<lambda>c. c \<noteq> nl) (rev ws)) \<le> length ws" by simp
  from m f have cases: "r = [] \<or> (s3 \<noteq> [] \<and> r = nl # rev (takeWhile (\<lambda>c. c \<noteq> nl) (rev ws)) @ s3)"
    unfolding eq by (cases "s3 = []"; cases "nl \<in> set ws") auto
  have wsne: "nl \<in> set ws \<Longrightarrow> 0 < length ws" by (cases ws) auto
  show ?thesis
  proof (cases "r = []")
    case True
    from l1 l2 have "0 < length s" by linarith
    with True show ?thesis by simp
  next
    case False
    with cases have r: "r = nl # rev (takeWhile (\<lambda>c. c \<noteq> nl) (rev ws)) @ s3" by simp
    have "length r = 1 + length (takeWhile (\<lambda>c. c \<noteq> nl) (rev ws)) + length s3"
      unfolding r by simp
    with tw sp l1 l2 show ?thesis by linarith
  qed
qed

function sub_close :: "string \<Rightarrow> string" where
  "sub_close [] = []"
| "sub_close (c # cs) =
     (case match_close (c # cs) of
        Some rest \<Rightarrow> sub_close rest
      | None \<Rightarrow> c # sub_close cs)"
  by pat_completeness auto
termination
  by (relation "measure length") (auto dest: match_close_shorter)

definition clean_code :: "string \<Rightarrow> string" where
  "clean_code raw = strip (sub_close (sub_open True raw))"

section \<open>Prompt builder\<close>

definition build_system_prompt :: "string \<Rightarrow> string" where
  \<open>build_system_prompt plot_path = concat (map (\<lambda>l. l @ [nl])
    [
     ''You are an expert Python data analyst working with the Titanic passenger dataset.'',
     [],
     ''DATAFRAME `df` '' @ em_dash @ '' 891 rows, 12 columns:'',
     ''  PassengerId  int    unique id 1-891'',
     ''  Survived     int    0=died, 1=survived'',
     ''  Pclass       int    ticket class: 1=First, 2=Second, 3=Third'',
     ''  Name         str    full name'',
     ''  Sex          str    'male' or 'female'' @ [CHR 0x27],
     ''  Age          float  age in years (177 NaN values)'',
     ''  SibSp        int    num siblings/spouses aboard'',
     ''  Parch        int    num parents/children aboard'',
     ''  Ticket       str    ticket number'',
     ''  Fare         float  fare in GBP'',
     ''  Cabin        str    cabin number (687 NaN values)'',
     ''  Embarked     str    port: C=Cherbourg Q=Queenstown S=Southampton'',
     [],
     ''EXECUTION NAMESPACE (already available '' @ em_dash @ '' do NOT import or redefine):'',
     ''  df         '' @ em_dash @ '' the Titanic DataFrame'',
     ''  pd         '' @ em_dash @ '' pandas'',
     ''  np         '' @ em_dash @ '' numpy'',
     ''  plt        '' @ em_dash @ '' matplotlib.pyplot (Agg backend)'',
     ''  sns        '' @ em_dash @ '' seaborn'',
     ''  PLOT_PATH  '' @ em_dash @ '' "'' @ plot_path @ ''" (absolute file path; save plots here)'',
     [],
     ''RULES '' @ em_dash @ '' follow exactly:'',
     [],
     ''FOR STATISTICS / DATA QUESTIONS:'',
     ''  1. Compute the answer using pandas/numpy on df.'',
     ''  2. Use print() to output a single clear English sentence.'',
     ''     Format numbers with f-strings. Use **bold** for key figures.'',
     ''     Example: print(f"**{pct:.1f}%** of passengers were male.")'',
     ''  3. For multi-row results print a neat markdown table, e.g.:'',
     ''       | Port | Count |'',
     ''       |------|-------|'',
     ''       | S    | 644   |'',
     [],
     ''FOR CHARTS / PLOTS / VISUALIZATIONS:'',
     ''  1. Apply style: plt.style.use('seaborn-v0_8-whitegrid')'',
     ''  2. Use sns.set_palette("husl")'',
     ''  3. Create figure: fig, ax = plt.subplots(figsize=(10, 6))'',
     ''     (use figsize=(7,7) for pie/square charts)'',
     ''  4. Build the chart on ax (NOT plt directly).'',
     ''     Typical patterns:'',
     ''       Histogram:   ax.hist(df['Age'].dropna(), bins=25, color='#3B82F6', edgecolor='white')'',
     ''       Bar chart:   data.plot(kind='bar', ax=ax, color='#3B82F6', edgecolor='white')'',
     ''       Count plot:  sns.countplot(data=df, x='Pclass', hue='Survived', palette='husl', ax=ax)'',
     ''       Box plot:    sns.boxplot(data=df, x='Pclass', y='Fare', palette='husl', ax=ax)'',
     ''       Pie chart:   ax.pie(vals, labels=lbls, autopct='%1.1f%%', startangle=90, colors=sns.color_palette('husl', len(vals)))'',
     ''       Heatmap:     sns.heatmap(df.select_dtypes('number').corr(), annot=True, fmt='.2f', cmap='Blues', ax=ax)'',
     ''       Scatter:     ax.scatter(df['Age'].dropna(), df.loc[df['Age'].notna(),'Fare'], alpha=0.5, c='#3B82F6')'',
     ''  5. Add labels:'',
     ''       ax.set_title('Clear Descriptive Title', fontsize=14, fontweight='bold', pad=10)'',
     ''       ax.set_xlabel('X Label', fontsize=11)'',
     ''       ax.set_ylabel('Y Label', fontsize=11)'',
     ''       ax.tick_params(labelsize=9)'',
     ''  6. For bar charts rotate x labels if needed: plt.xticks(rotation=0)'',
     ''  7. plt.tight_layout()'',
     ''  8. SAVE: plt.savefig(PLOT_PATH, bbox_inches='tight', dpi=150)'',
     ''  9. plt.close('all')  # always free memory'',
     ''  10. print() one sentence describing what the chart shows.'',
     [],
     ''CRITICAL:'',
     ''  - NEVER call plt.show() '' @ em_dash @ '' it will hang the server.'',
     ''  - Output ONLY valid Python code '' @ em_dash @ '' no markdown fences, no explanations.'',
     ''  - The code is executed with exec() so it must be self-contained.''
    ])\<close>

text \<open>The names the prompt documents in its section on the execution namespace.\<close>

definition documented_names :: "string list" where
  "documented_names = [''df'', ''pd'', ''np'', ''plt'', ''sns'', ''PLOT_PATH'']"

section \<open>Data model\<close>

text \<open>
  An exception is its class, as far as \<open>except Exception\<close> tells classes apart, and
  its message \<open>str(exc)\<close>. \<open>BaseException_class\<close> stands for the exceptions
  that do not derive from \<open>Exception\<close> (\<open>SystemExit\<close>,
  \<open>KeyboardInterrupt\<close>, \<open>GeneratorExit\<close>).
\<close>

datatype exc_class = Exception_class | BaseException_class

datatype py_exc = PyExc (exc_class: exc_class) (exc_str: string)

record settings =
  GROQ_API_KEY :: string
  GROQ_MODEL :: string

record chat_groq =
  model :: string
  temperature :: nat
  groq_api_key :: string
  max_retries :: nat

datatype message = SystemMessage string | HumanMessage string

text \<open>
  Tables live in a store, a list indexed by address, so that copying a table and
  mutating a table are different things. A namespace binds names to values; a table is
  bound by reference.
\<close>

type_synonym addr = nat

datatype pyval = DataFrame addr | Module string | Str string | Other string

type_synonym namespace = "string \<rightharpoonup> pyval"

type_synonym filesystem = "string \<rightharpoonup> string"

text \<open>
  What one \<open>exec\<close> of generated code does: the exception it ends with, if any, the
  text written to standard output until then, whether the code closed
  \<open>sys.stdout\<close>, which is the capture buffer while it runs, and the namespace, the
  store and the files as it leaves them. The store is the whole store of the process:
  generated code runs with the full builtins and can reach any table, also the canonical
  one through \<open>import backend.services.agent\<close>. Other ways in which generated
  code can act on the interpreter are outside this record: it is taken not to patch the
  modules that \<open>process_query\<close> calls, and the exceptions it raises have a
  message, so \<open>str(exc)\<close> returns.
\<close>

record 'd exec_result =
  raised :: "py_exc option"
  stdout :: string
  stdout_closed :: bool
  ns_after :: namespace
  heap_after :: "'d list"
  files_after :: filesystem

text \<open>
  The collaborators of the core: the remote model (\<open>llm.invoke\<close>, which may depend
  on how many calls the process has made before), the behaviour of generated code under
  \<open>exec\<close>, and the directory \<open>STATIC_DIR\<close>.
\<close>

record 'd env =
  invoke :: "nat \<Rightarrow> chat_groq \<Rightarrow> message list \<Rightarrow> py_exc + string"
  exec :: "string \<Rightarrow> namespace \<Rightarrow> 'd list \<Rightarrow> filesystem \<Rightarrow> 'd exec_result"
  STATIC_DIR :: string

text \<open>
  The process state: the module globals \<open>_llm\<close>, \<open>_model_index\<close> and
  \<open>_df\<close> (a reference into the store), the store, the files, and two histories
  that only record what was called: every \<open>llm.invoke\<close> and every \<open>exec\<close>.
\<close>

record 'd state =
  llm :: "chat_groq option"
  model_index :: nat
  df :: addr
  heap :: "'d list"
  files :: filesystem
  llm_log :: "(chat_groq \<times> message list) list"
  exec_log :: "(string \<times> namespace \<times> 'd list) list"

record result =
  response :: string
  image_url :: "string option"

datatype 'd outcome = Returned result "'d state" | Propagated py_exc "'d state"

section \<open>Model gateway\<close>

definition MODEL_CASCADE :: "string list" where
  "MODEL_CASCADE = [''llama-3.3-70b-versatile'', ''llama3-70b-8192'', ''mixtral-8x7b-32768'', ''llama3-8b-8192'']"

definition ChatGroq :: "string \<Rightarrow> string \<Rightarrow> chat_groq" where
  "ChatGroq m key = \<lparr>model = m, temperature = 0, groq_api_key = key, max_retries = 1\<rparr>"

definition key_missing :: string where
  "key_missing = ''GROQ_API_KEY is not configured. Add it to your .env file and restart the server.''"

text \<open>\<open>_get_llm\<close>: \<open>Inl\<close> is the message of the \<open>ValueError\<close> it raises.\<close>

definition get_llm :: "settings \<Rightarrow> 'd state \<Rightarrow> (string + chat_groq) \<times> 'd state" where
  "get_llm cfg st =
     (case llm st of
        None \<Rightarrow>
          if GROQ_API_KEY cfg = [] then (Inl key_missing, st)
          else let c = ChatGroq (GROQ_MODEL cfg) (GROQ_API_KEY cfg)
               in (Inr c, st\<lparr>llm := Some c\<rparr>)
      | Some c \<Rightarrow> (Inr c, st))"

definition try_next_model :: "settings \<Rightarrow> 'd state \<Rightarrow> chat_groq option \<times> 'd state" where
  "try_next_model cfg st =
     (let st1 = st\<lparr>model_index := model_index st + 1\<rparr> in
      if model_index st1 \<ge> length MODEL_CASCADE then (None, st1)
      else let c = ChatGroq (MODEL_CASCADE ! model_index st1) (GROQ_API_KEY cfg)
           in (Some c, st1\<lparr>llm := Some c\<rparr>))"

definition llm_invoke :: "'d env \<Rightarrow> chat_groq \<Rightarrow> message list \<Rightarrow> 'd state \<Rightarrow> (py_exc + string) \<times> 'd state" where
  "llm_invoke env c ms st =
     (invoke env (length (llm_log st)) c ms, st\<lparr>llm_log := llm_log st @ [(c, ms)]\<rparr>)"

definition all_rate_limited :: string where
  "all_rate_limited = warning_sign @ '' All Groq models are currently rate-limited. Please wait a minute and try again, or see [Groq rate limits](https://console.groq.com/settings/limits).''"

datatype 'd gen =
    GenCode string chat_groq "'d state"
  | GenReturn result "'d state"
  | GenRaise py_exc "'d state"
  | GenNone "'d state"

text \<open>
  The loop \<open>for _attempt in range(len(_MODEL_CASCADE))\<close>; the first argument is the
  number of iterations left. \<open>GenNone\<close> is the loop running out with \<open>code\<close>
  still \<open>None\<close>.
\<close>

fun generate_code :: "nat \<Rightarrow> 'd env \<Rightarrow> settings \<Rightarrow> string \<Rightarrow> string \<Rightarrow> chat_groq \<Rightarrow> 'd state \<Rightarrow> 'd gen" where
  "generate_code 0 env cfg system_msg query cl st = GenNone st"
| "generate_code (Suc n) env cfg system_msg query cl st =
     (case llm_invoke env cl [SystemMessage system_msg, HumanMessage query] st of
        (Inr content, st1) \<Rightarrow> GenCode (clean_code content) cl st1
      | (Inl exc, st1) \<Rightarrow>
          if exc_class exc \<noteq> Exception_class then GenRaise exc st1
          else if is_quota_error (exc_str exc) then
            (case try_next_model cfg st1 of
               (None, st2) \<Rightarrow> GenReturn \<lparr>response = all_rate_limited, image_url = None\<rparr> st2
             | (Some cl', st2) \<Rightarrow> generate_code n env cfg system_msg query cl' st2)
          else GenReturn \<lparr>response = ''Could not contact Gemini API: '' @ exc_str exc, image_url = None\<rparr> st1)"

section \<open>Execution and retry controller\<close>

text \<open>\<open>_df.copy()\<close>: a new table with the contents of the canonical one.\<close>

definition df_copy :: "'d state \<Rightarrow> addr \<times> 'd state" where
  "df_copy st = (length (heap st), st\<lparr>heap := heap st @ [heap st ! df st]\<rparr>)"

definition build_namespace :: "addr \<Rightarrow> string \<Rightarrow> namespace" where
  "build_namespace a plot_path =
     [''df'' \<mapsto> DataFrame a, ''pd'' \<mapsto> Module ''pandas'', ''np'' \<mapsto> Module ''numpy'',
      ''plt'' \<mapsto> Module ''matplotlib.pyplot'', ''sns'' \<mapsto> Module ''seaborn'',
      ''PLOT_PATH'' \<mapsto> Str plot_path, ''os'' \<mapsto> Module ''os'', ''uuid'' \<mapsto> Module ''uuid'']"

text \<open>The state after an \<open>exec\<close> with result \<open>r\<close>: the store and the files are as the code left them.\<close>

definition after_exec :: "'d state \<Rightarrow> string \<Rightarrow> namespace \<Rightarrow> 'd exec_result \<Rightarrow> 'd state" where
  "after_exec st code ns r =
     st\<lparr>heap := heap_after r, files := files_after r, exec_log := exec_log st @ [(code, ns, heap st)]\<rparr>"

definition run_exec :: "'d env \<Rightarrow> string \<Rightarrow> namespace \<Rightarrow> 'd state \<Rightarrow> 'd exec_result \<times> 'd state" where
  "run_exec env code ns st =
     (let r = exec env code ns (heap st) (files st) in (r, after_exec st code ns r))"

text \<open>Truth value of an optional string: \<open>None\<close> and the empty string are false.\<close>

definition truthy :: "string option \<Rightarrow> bool" where
  "truthy m = (case m of None \<Rightarrow> False | Some s \<Rightarrow> s \<noteq> [])"

definition retry_msg :: "string \<Rightarrow> string \<Rightarrow> string" where
  "retry_msg err code =
     ''The code you wrote raised this error:'' @ [nl] @ err @ [nl, nl] @
     ''Offending code:'' @ [nl] @ fence @ ''python'' @ [nl] @ code @ [nl] @ fence @ [nl, nl] @
     ''Rewrite it correctly. Output ONLY valid Python code.''"

definition quota_reached :: string where
  "quota_reached = warning_sign @ '' API quota reached for today. Please wait a moment and try again.''"

datatype 'd executed =
    ExecDone string "string option" "'d state"
  | ExecReturn result "'d state"
  | ExecRaise py_exc "'d state"

text \<open>
  \<open>buf.getvalue()\<close> on the capture buffer of an \<open>exec\<close>: a closed
  \<open>StringIO\<close> raises \<open>ValueError\<close>.
\<close>

definition getvalue :: "'d exec_result \<Rightarrow> py_exc + string" where
  "getvalue r =
     (if stdout_closed r then Inl (PyExc Exception_class ''I/O operation on closed file'')
      else Inr (stdout r))"

text \<open>The handler \<open>except Exception as exc2\<close> of the retry.\<close>

definition retry_handler :: "py_exc \<Rightarrow> string \<Rightarrow> 'd state \<Rightarrow> 'd executed" where
  "retry_handler exc2 text st =
     (if exc_class exc2 \<noteq> Exception_class then ExecRaise exc2 st
      else if is_quota_error (exc_str exc2) then
        ExecReturn \<lparr>response = quota_reached, image_url = None\<rparr> st
      else ExecDone text (Some (exc_str exc2)) st)"

text \<open>
  The retry block. One \<open>try\<close> covers the second model call, the second
  \<open>exec\<close>, which runs in the namespace \<open>ns\<close> as the first attempt left it,
  and \<open>buf2.getvalue()\<close>.
\<close>

definition retry :: "'d env \<Rightarrow> string \<Rightarrow> string \<Rightarrow> string \<Rightarrow> chat_groq \<Rightarrow> string option \<Rightarrow> string \<Rightarrow> namespace \<Rightarrow> 'd state \<Rightarrow> 'd executed" where
  "retry env system_msg query code cl err_msg text ns st =
     (if truthy err_msg \<and> text = [] then
        (case llm_invoke env cl [SystemMessage system_msg, HumanMessage query,
                                 HumanMessage (retry_msg (the err_msg) code)] st of
           (Inl exc2, st1) \<Rightarrow> retry_handler exc2 text st1
         | (Inr content, st1) \<Rightarrow>
             (case run_exec env (clean_code content) ns st1 of
                (r2, st2) \<Rightarrow>
                  (case raised r2 of
                     Some exc2 \<Rightarrow> retry_handler exc2 text st2
                   | None \<Rightarrow>
                       (case getvalue r2 of
                          Inl exc2 \<Rightarrow> retry_handler exc2 text st2
                        | Inr out \<Rightarrow> ExecDone (strip out) None st2))))
      else ExecDone text err_msg st)"

text \<open>
  Line 269, \<open>text = buf.getvalue().strip()\<close>, and the retry block after it. The
  line stands outside every \<open>try\<close>, so its \<open>ValueError\<close> leaves the function.
\<close>

definition capture_and_retry :: "'d env \<Rightarrow> string \<Rightarrow> string \<Rightarrow> string \<Rightarrow> chat_groq \<Rightarrow> string option \<Rightarrow> 'd exec_result \<Rightarrow> 'd state \<Rightarrow> 'd executed" where
  "capture_and_retry env system_msg query code cl err_msg r1 st =
     (case getvalue r1 of
        Inl exc \<Rightarrow> ExecRaise exc st
      | Inr out \<Rightarrow> retry env system_msg query code cl err_msg (strip out) (ns_after r1) st)"

definition execute :: "'d env \<Rightarrow> string \<Rightarrow> string \<Rightarrow> string \<Rightarrow> chat_groq \<Rightarrow> string \<Rightarrow> 'd state \<Rightarrow> 'd executed" where
  "execute env system_msg query code cl plot_path st =
     (case df_copy st of
        (a, st1) \<Rightarrow>
          (case run_exec env code (build_namespace a plot_path) st1 of
             (r1, st2) \<Rightarrow>
               (case raised r1 of
                  Some exc \<Rightarrow>
                    if exc_class exc \<noteq> Exception_class then ExecRaise exc st2
                    else capture_and_retry env system_msg query code cl
                           (Some (exc_str exc)) r1 st2
                | None \<Rightarrow> capture_and_retry env system_msg query code cl None r1 st2)))"

section \<open>Response assembler\<close>

definition os_path_join :: "string \<Rightarrow> string \<Rightarrow> string" where
  "os_path_join a b =
     (if b \<noteq> [] \<and> hd b = CHR ''/'' then b
      else if a = [] \<or> last a = CHR ''/'' then a @ b
      else a @ ''/'' @ b)"

text \<open>The argument \<open>uuid_hex\<close> is the value of \<open>uuid.uuid4().hex\<close> for this request.\<close>

definition plot_fname :: "string \<Rightarrow> string" where
  "plot_fname uuid_hex = ''plot_'' @ take 8 uuid_hex @ ''.png''"

definition plot_path :: "'d env \<Rightarrow> string \<Rightarrow> string" where
  "plot_path env uuid_hex = os_path_join (STATIC_DIR env) (plot_fname uuid_hex)"

definition check_plot :: "string \<Rightarrow> string \<Rightarrow> 'd state \<Rightarrow> string option \<times> 'd state" where
  "check_plot fname path st =
     (case files st path of
        Some content \<Rightarrow>
          if length content > 0 then (Some (''/static/'' @ fname), st)
          else (None, st\<lparr>files := (files st)(path := None)\<rparr>)
      | None \<Rightarrow> (None, st))"

definition error_response :: "string \<Rightarrow> string" where
  "error_response err =
     ''I ran into an error while analysing your request: `'' @ err @ ''`'' @ [nl, nl] @
     ''Please try rephrasing your question.''"

definition build_response :: "string option \<Rightarrow> string \<Rightarrow> string option \<Rightarrow> string" where
  "build_response err_msg text url =
     (if truthy err_msg \<and> text = [] then error_response (the err_msg)
      else if text = [] \<and> \<not> truthy url then
        ''The analysis ran but produced no printable output. Try rephrasing.''
      else if text = [] \<and> truthy url then ''Here is the visualisation:''
      else text)"

definition assemble :: "string \<Rightarrow> string \<Rightarrow> string \<Rightarrow> string option \<Rightarrow> 'd state \<Rightarrow> 'd outcome" where
  "assemble fname path text err_msg st =
     (case check_plot fname path st of
        (url, st1) \<Rightarrow>
          Returned \<lparr>response = build_response err_msg text url, image_url = url\<rparr> st1)"

section \<open>The request\<close>

text \<open>
  \<open>process_query\<close> in three parts. \<open>request_code\<close> is the function up to the
  end of the cascade loop: it ends with the generated code, with an early \<open>return\<close>,
  or with an exception that no handler catches. \<open>run_request\<close> goes on to the end
  of the retry block, and ends either with the request finished (\<open>Done\<close>) or with
  the captured text and the error message that the response assembler starts from
  (\<open>Assembling\<close>).
\<close>

definition request_code :: "'d env \<Rightarrow> settings \<Rightarrow> string \<Rightarrow> string \<Rightarrow> 'd state \<Rightarrow> 'd gen" where
  "request_code env cfg uuid_hex query st =
     (case get_llm cfg st of
        (Inl msg, st0) \<Rightarrow> GenReturn \<lparr>response = msg, image_url = None\<rparr> st0
      | (Inr cl0, st0) \<Rightarrow>
          generate_code (length MODEL_CASCADE) env cfg
            (build_system_prompt (plot_path env uuid_hex)) query cl0 st0)"

datatype 'd stage = Assembling string "string option" "'d state" | Done "'d outcome"

definition run_request :: "'d env \<Rightarrow> settings \<Rightarrow> string \<Rightarrow> string \<Rightarrow> 'd state \<Rightarrow> 'd stage" where
  "run_request env cfg uuid_hex query st =
     (case request_code env cfg uuid_hex query st of
        GenReturn r st1 \<Rightarrow> Done (Returned r st1)
      | GenRaise e st1 \<Rightarrow> Done (Propagated e st1)
      | GenNone st1 \<Rightarrow>
          Done (Returned \<lparr>response = ''No response generated. Please try again.'',
                          image_url = None\<rparr> st1)
      | GenCode code cl st1 \<Rightarrow>
          (case execute env (build_system_prompt (plot_path env uuid_hex)) query code cl
                  (plot_path env uuid_hex) st1 of
             ExecReturn r st2 \<Rightarrow> Done (Returned r st2)
           | ExecRaise e st2 \<Rightarrow> Done (Propagated e st2)
           | ExecDone text err_msg st2 \<Rightarrow> Assembling text err_msg st2))"

definition process_query :: "'d env \<Rightarrow> settings \<Rightarrow> string \<Rightarrow> string \<Rightarrow> 'd state \<Rightarrow> 'd outcome" where
  "process_query env cfg uuid_hex query st =
     (case run_request env cfg uuid_hex query st of
        Done out \<Rightarrow> out
      | Assembling text err_msg st2 \<Rightarrow>
          assemble (plot_fname uuid_hex) (plot_path env uuid_hex) text err_msg st2)"

fun final_state :: "'d outcome \<Rightarrow> 'd state" where
  "final_state (Returned r st) = st"
| "final_state (Propagated e st) = st"

fun returned :: "'d outcome \<Rightarrow> result option" where
  "returned (Returned r st) = Some r"
| "returned (Propagated e st) = None"

fun propagated :: "'d outcome \<Rightarrow> py_exc option" where
  "propagated (Returned r st) = None"
| "propagated (Propagated e st) = Some e"

fun executed_state :: "'d executed \<Rightarrow> 'd state" where
  "executed_state (ExecDone text err_msg st) = st"
| "executed_state (ExecReturn r st) = st"
| "executed_state (ExecRaise e st) = st"

fun assembling :: "'d stage \<Rightarrow> (string \<times> string option) option" where
  "assembling (Assembling text err_msg st) = Some (text, err_msg)"
| "assembling (Done out) = None"

section \<open>Dataset isolation: the contract of generated code\<close>

text \<open>
  Generated code reaches tables through the bindings of its namespace. \<open>confined\<close>
  says so of an \<open>exec\<close> behaviour: the store only grows, a table that the
  namespace does not refer to keeps its contents, and no reference to it appears in the
  namespace.
\<close>

definition confined :: "(string \<Rightarrow> namespace \<Rightarrow> 'd list \<Rightarrow> filesystem \<Rightarrow> 'd exec_result) \<Rightarrow> bool" where
  "confined ex =
     (\<forall>code ns h fs.
        length h \<le> length (heap_after (ex code ns h fs)) \<and>
        (\<forall>a < length h. DataFrame a \<notin> ran ns \<longrightarrow>
           heap_after (ex code ns h fs) ! a = h ! a \<and>
           DataFrame a \<notin> ran (ns_after (ex code ns h fs))))"

text \<open>
  \<open>intact d v st\<close>: the canonical table is still at address \<open>d\<close> with contents
  \<open>v\<close>. \<open>logged_apart d v base st\<close>: every \<open>exec\<close> recorded from position
  \<open>base\<close> on ran in a namespace without a reference to \<open>d\<close>, on a store
  where \<open>d\<close> held \<open>v\<close>.
\<close>

definition intact :: "addr \<Rightarrow> 'd \<Rightarrow> 'd state \<Rightarrow> bool" where
  "intact d v st = (df st = d \<and> d < length (heap st) \<and> heap st ! d = v)"

definition logged_apart :: "addr \<Rightarrow> 'd \<Rightarrow> nat \<Rightarrow> 'd state \<Rightarrow> bool" where
  "logged_apart d v base st =
     (base \<le> length (exec_log st) \<and>
      (\<forall>(code, ns, h) \<in> set (drop base (exec_log st)). DataFrame d \<notin> ran ns \<and> h ! d = v))"

fun gen_state :: "'d gen \<Rightarrow> 'd state" where
  "gen_state (GenCode code cl st) = st"
| "gen_state (GenReturn r st) = st"
| "gen_state (GenRaise e st) = st"
| "gen_state (GenNone st) = st"

section \<open>Example collaborators\<close>

definition titanic :: "string list" where
  "titanic = [''Braund, Mr. Owen Harris'', ''Cumings, Mrs. John Bradley'']"

definition fresh_state :: "string list state" where
  "fresh_state = \<lparr>llm = None, model_index = 0, df = 0, heap = [titanic], files = Map.empty,
     llm_log = [], exec_log = []\<rparr>"

definition cfg_ok :: settings where
  "cfg_ok = \<lparr>GROQ_API_KEY = ''gsk_test'', GROQ_MODEL = ''llama-3.3-70b-versatile''\<rparr>"

definition cfg_no_key :: settings where
  "cfg_no_key = \<lparr>GROQ_API_KEY = [], GROQ_MODEL = ''llama-3.3-70b-versatile''\<rparr>"

definition idle_exec :: "string \<Rightarrow> namespace \<Rightarrow> string list list \<Rightarrow> filesystem \<Rightarrow> string list exec_result" where
  "idle_exec code ns h fs = \<lparr>raised = None, stdout = [], stdout_closed = False, ns_after = ns, heap_after = h, files_after = fs\<rparr>"

definition quota_env :: "string list env" where
  "quota_env = \<lparr>invoke = (\<lambda>n c ms. Inl (PyExc Exception_class ''Error code: 429'')),
     exec = idle_exec, STATIC_DIR = ''/app/backend/static''\<rparr>"

definition uuid_hex0 :: string where
  "uuid_hex0 = ''0123456789abcdef0123456789abcdef''"

definition write_plot :: "string \<Rightarrow> namespace \<Rightarrow> filesystem \<Rightarrow> filesystem" where
  "write_plot content ns fs = (case ns ''PLOT_PATH'' of Some (Str p) \<Rightarrow> fs(p \<mapsto> content) | _ \<Rightarrow> fs)"

definition drop_rows :: "namespace \<Rightarrow> string list list \<Rightarrow> string list list" where
  "drop_rows ns h = (case ns ''df'' of Some (DataFrame a) \<Rightarrow> if a < length h then h[a := []] else h | _ \<Rightarrow> h)"

definition script_exec :: "string \<Rightarrow> namespace \<Rightarrow> string list list \<Rightarrow> filesystem \<Rightarrow> string list exec_result" where
  "script_exec code ns h fs =
     (if code = ''plt.savefig(PLOT_PATH); raise ValueError('boom')'' then
        \<lparr>raised = Some (PyExc Exception_class ''boom''), stdout = [], stdout_closed = False, ns_after = ns,
         heap_after = h, files_after = write_plot ''PNG'' ns fs\<rparr>
      else if code = ''open(PLOT_PATH, 'w').close(); raise ValueError('boom')'' then
        \<lparr>raised = Some (PyExc Exception_class ''boom''), stdout = [], stdout_closed = False, ns_after = ns,
         heap_after = h, files_after = write_plot [] ns fs\<rparr>
      else if code = ''assert False'' then
        \<lparr>raised = Some (PyExc Exception_class []), stdout = [], stdout_closed = False, ns_after = ns,
         heap_after = h, files_after = fs\<rparr>
      else if code = ''raise ValueError('column quota missing')'' then
        \<lparr>raised = Some (PyExc Exception_class ''column quota missing''), stdout = [], stdout_closed = False,
         ns_after = ns, heap_after = h, files_after = fs\<rparr>
      else if code = ''open(PLOT_PATH, 'w').close()'' then
        \<lparr>raised = None, stdout = [], stdout_closed = False, ns_after = ns, heap_after = h,
         files_after = write_plot [] ns fs\<rparr>
      else if code = ''plt.savefig(PLOT_PATH)'' then
        \<lparr>raised = None, stdout = [], stdout_closed = False, ns_after = ns, heap_after = h,
         files_after = write_plot ''PNG'' ns fs\<rparr>
      else if code = ''df.drop(df.index, inplace=True); x = 1; raise ValueError('boom')'' then
        \<lparr>raised = Some (PyExc Exception_class ''boom''), stdout = [], stdout_closed = False,
         ns_after = ns(''x'' \<mapsto> Other ''1''), heap_after = drop_rows ns h, files_after = fs\<rparr>
      else
        \<lparr>raised = None, stdout = [], stdout_closed = False, ns_after = ns, heap_after = h, files_after = fs\<rparr>)"

definition exit_exec :: "string \<Rightarrow> namespace \<Rightarrow> string list list \<Rightarrow> filesystem \<Rightarrow> string list exec_result" where
  "exit_exec code ns h fs =
     \<lparr>raised = Some (PyExc BaseException_class ''bye''), stdout = [], stdout_closed = False, ns_after = ns,
      heap_after = h, files_after = fs\<rparr>"

text \<open>
  Generated code that closes the capture buffer, and generated code that reaches the
  canonical table, which \<open>fresh_state\<close> holds at address 0, through the module
  that owns it and empties it in place.
\<close>

definition close_exec :: "string \<Rightarrow> namespace \<Rightarrow> string list list \<Rightarrow> filesystem \<Rightarrow> string list exec_result" where
  "close_exec code ns h fs =
     \<lparr>raised = None, stdout = [], stdout_closed = True, ns_after = ns,
      heap_after = h, files_after = fs\<rparr>"

definition close_env :: "string list env" where
  "close_env = \<lparr>invoke = (\<lambda>n c ms. Inr ''import sys; sys.stdout.close()''), exec = close_exec,
     STATIC_DIR = ''/app/backend/static''\<rparr>"

definition reach_exec :: "string \<Rightarrow> namespace \<Rightarrow> string list list \<Rightarrow> filesystem \<Rightarrow> string list exec_result" where
  "reach_exec code ns h fs =
     \<lparr>raised = None, stdout = ''0'', stdout_closed = False, ns_after = ns,
      heap_after = h[0 := []], files_after = fs\<rparr>"

definition reach_env :: "string list env" where
  "reach_env =
     \<lparr>invoke = (\<lambda>n c ms. Inr ''import backend.services.agent as a; a._df.drop(a._df.index, inplace=True); print(len(a._df))''),
      exec = reach_exec, STATIC_DIR = ''/app/backend/static''\<rparr>"

definition exit_env :: "string list env" where
  "exit_env = \<lparr>invoke = (\<lambda>n c ms. Inr ''raise SystemExit('bye')''), exec = exit_exec,
     STATIC_DIR = ''/app/backend/static''\<rparr>"

definition stub_env :: "string \<Rightarrow> string list env" where
  "stub_env code = \<lparr>invoke = (\<lambda>n c ms. Inr code), exec = script_exec,
     STATIC_DIR = ''/app/backend/static''\<rparr>"

definition quota_on_retry_env :: "string \<Rightarrow> string list env" where
  "quota_on_retry_env code =
     \<lparr>invoke = (\<lambda>n c ms. if n = 0 then Inr code else Inl (PyExc Exception_class ''Error code: 429'')),
      exec = script_exec, STATIC_DIR = ''/app/backend/static''\<rparr>"

definition plot_path0 :: string where
  "plot_path0 = ''/app/backend/static/plot_01234567.png''"

lemmas request_defs =
  process_query_def run_request_def request_code_def get_llm_def llm_invoke_def
  try_next_model_def execute_def capture_and_retry_def getvalue_def df_copy_def run_exec_def
  after_exec_def retry_def retry_handler_def
  truthy_def assemble_def check_plot_def build_response_def plot_path_def plot_fname_def
  os_path_join_def build_namespace_def ChatGroq_def MODEL_CASCADE_def Let_def

lemmas text_defs =
  clean_code_def strip_def is_space_def match_open_def match_close_def fence_def nl_def
  is_quota_error_def QUOTA_PHRASES_def lower_def lower_char_def

lemmas example_defs =
  script_exec_def exit_exec_def exit_env_def close_exec_def close_env_def reach_exec_def
  reach_env_def write_plot_def drop_rows_def stub_env_def quota_on_retry_env_def
  fresh_state_def cfg_ok_def uuid_hex0_def plot_path0_def

section \<open>Missing credential\<close>

lemma quota_429: "is_quota_error ''Error code: 429''"
  by (simp add: is_quota_error_def QUOTA_PHRASES_def lower_def lower_char_def)

text \<open>
  C7. With no credential configured and no client built yet, \<open>process_query\<close>
  returns at once: the response is the configuration-error message, the image is
  \<open>None\<close>, and the state is the one it started from, so no model call was made
  or retried and no code was run.
\<close>

theorem no_credential_immediate:
  assumes "llm st = None" and "GROQ_API_KEY cfg = []"
  shows "process_query env cfg uuid_hex query st =
           Returned \<lparr>response = key_missing, image_url = None\<rparr> st"
  using assms by (simp add: process_query_def run_request_def request_code_def get_llm_def)

theorem no_credential_immediate_witness:
  "process_query quota_env cfg_no_key ''0123456789abcdef0123456789abcdef'' ''How many survived?'' fresh_state =
     Returned \<lparr>response = key_missing, image_url = None\<rparr> fresh_state"
  using no_credential_immediate [of fresh_state cfg_no_key quota_env]
  by (simp add: fresh_state_def cfg_no_key_def)

section \<open>Cascade exhaustion\<close>

lemma generate_code_all_quota:
  assumes q: "\<forall>n c ms. \<exists>e. invoke env n c ms = Inl e \<and> exc_class e = Exception_class \<and> is_quota_error (exc_str e)"
  shows "length MODEL_CASCADE \<le> model_index st + n \<Longrightarrow> model_index st < length MODEL_CASCADE \<Longrightarrow>
    \<exists>st'. generate_code n env cfg sm qu cl st = GenReturn \<lparr>response = all_rate_limited, image_url = None\<rparr> st'
      \<and> length (llm_log st') = length (llm_log st) + (length MODEL_CASCADE - model_index st)
      \<and> exec_log st' = exec_log st"
proof (induction n arbitrary: st cl)
  case 0
  then show ?case by simp
next
  case (Suc n)
  from q obtain e where e: "invoke env (length (llm_log st)) cl [SystemMessage sm, HumanMessage qu] = Inl e"
      "exc_class e = Exception_class" "is_quota_error (exc_str e)" by blast
  define st1 where "st1 = st\<lparr>llm_log := llm_log st @ [(cl, [SystemMessage sm, HumanMessage qu])]\<rparr>"
  have inv: "llm_invoke env cl [SystemMessage sm, HumanMessage qu] st = (Inl e, st1)"
    by (simp add: llm_invoke_def e st1_def)
  show ?case
  proof (cases "length MODEL_CASCADE \<le> model_index st + 1")
    case True
    with Suc.prems have idx: "length MODEL_CASCADE - model_index st = 1" by simp
    from True have "try_next_model cfg st1 = (None, st1\<lparr>model_index := model_index st1 + 1\<rparr>)"
      by (simp add: try_next_model_def st1_def Let_def)
    then show ?thesis using inv e idx by (simp add: st1_def)
  next
    case False
    define c where "c = ChatGroq (MODEL_CASCADE ! (model_index st + 1)) (GROQ_API_KEY cfg)"
    define st2 where "st2 = st1\<lparr>model_index := model_index st + 1, llm := Some c\<rparr>"
    from False have nxt: "try_next_model cfg st1 = (Some c, st2)"
      by (simp add: try_next_model_def st1_def st2_def c_def Let_def)
    have "length MODEL_CASCADE \<le> model_index st2 + n" "model_index st2 < length MODEL_CASCADE"
      using Suc.prems False by (simp_all add: st2_def)
    from Suc.IH [OF this, of c] obtain st' where
      st': "generate_code n env cfg sm qu c st2 = GenReturn \<lparr>response = all_rate_limited, image_url = None\<rparr> st'"
        "length (llm_log st') = length (llm_log st2) + (length MODEL_CASCADE - model_index st2)"
        "exec_log st' = exec_log st2" by blast
    have "length (llm_log st2) = length (llm_log st) + 1" "model_index st2 = model_index st + 1"
         "exec_log st2 = exec_log st"
      by (simp_all add: st2_def st1_def)
    with st' False have "length (llm_log st') = length (llm_log st) + (length MODEL_CASCADE - model_index st)"
        "exec_log st' = exec_log st" by simp_all
    then show ?thesis using inv e nxt st'(1) by simp
  qed
qed

text \<open>
  C4. In a fresh process (no client yet, cascade index 0) with a credential, if every
  model call raises a quota-classified error, \<open>process_query\<close> makes exactly as
  many calls as the cascade has entries, runs no code, and returns the "all models
  rate-limited" text with no image.
\<close>

theorem cascade_exhaustion:
  assumes fresh: "llm st = None" "model_index st = 0"
    and key: "GROQ_API_KEY cfg \<noteq> []"
    and q: "\<forall>n c ms. \<exists>e. invoke env n c ms = Inl e \<and> exc_class e = Exception_class \<and> is_quota_error (exc_str e)"
  shows "\<exists>st'. process_query env cfg uuid_hex query st =
             Returned \<lparr>response = all_rate_limited, image_url = None\<rparr> st'
           \<and> length (llm_log st') = length (llm_log st) + length MODEL_CASCADE
           \<and> exec_log st' = exec_log st"
proof -
  define c where "c = ChatGroq (GROQ_MODEL cfg) (GROQ_API_KEY cfg)"
  define st0 where "st0 = st\<lparr>llm := Some c\<rparr>"
  have g: "get_llm cfg st = (Inr c, st0)"
    using fresh key by (simp add: get_llm_def c_def st0_def Let_def)
  have "length MODEL_CASCADE \<le> model_index st0 + length MODEL_CASCADE"
       "model_index st0 < length MODEL_CASCADE"
    using fresh by (simp_all add: st0_def MODEL_CASCADE_def)
  from generate_code_all_quota [OF q this, of cfg "build_system_prompt (plot_path env uuid_hex)" query c]
  obtain st' where st': "generate_code (length MODEL_CASCADE) env cfg (build_system_prompt (plot_path env uuid_hex)) query c st0
        = GenReturn \<lparr>response = all_rate_limited, image_url = None\<rparr> st'"
      "length (llm_log st') = length (llm_log st0) + (length MODEL_CASCADE - model_index st0)"
      "exec_log st' = exec_log st0" by blast
  have "process_query env cfg uuid_hex query st = Returned \<lparr>response = all_rate_limited, image_url = None\<rparr> st'"
    using g st'(1) by (simp add: process_query_def run_request_def request_code_def)
  moreover have "length (llm_log st') = length (llm_log st) + length MODEL_CASCADE" "exec_log st' = exec_log st"
    using st'(2,3) fresh by (simp_all add: st0_def)
  ultimately show ?thesis by blast
qed

theorem cascade_exhaustion_witness:
  "\<exists>st'. process_query quota_env cfg_ok ''0123456789abcdef0123456789abcdef'' ''How many survived?'' fresh_state =
             Returned \<lparr>response = all_rate_limited, image_url = None\<rparr> st'
           \<and> length (llm_log st') = 4 \<and> exec_log st' = []"
proof -
  have "\<forall>n c ms. \<exists>e. invoke quota_env n c ms = Inl e \<and> exc_class e = Exception_class \<and> is_quota_error (exc_str e)"
    by (simp add: quota_env_def quota_429)
  from cascade_exhaustion [OF _ _ _ this, of fresh_state cfg_ok "''0123456789abcdef0123456789abcdef''" "''How many survived?''"]
  show ?thesis by (simp add: fresh_state_def cfg_ok_def MODEL_CASCADE_def eval_nat_numeral)
qed

section \<open>The execution namespace\<close>

lemma assemble_state:
  "exec_log (final_state (assemble f p t e st)) = exec_log st"
  "llm_log (final_state (assemble f p t e st)) = llm_log st"
  "heap (final_state (assemble f p t e st)) = heap st"
  "df (final_state (assemble f p t e st)) = df st"
  by (simp_all add: assemble_def check_plot_def split: option.splits)

lemma retry_handler_state: "executed_state (retry_handler e t st) = st"
  by (simp add: retry_handler_def)

lemma retry_exec_log:
  "\<exists>rest. exec_log (executed_state (retry env sm q code cl err t ns st)) = exec_log st @ rest"
  by (simp add: retry_def llm_invoke_def run_exec_def after_exec_def Let_def retry_handler_state
      split: sum.splits option.splits)

lemma run_exec_eq:
  "run_exec env code ns st = (exec env code ns (heap st) (files st),
     after_exec st code ns (exec env code ns (heap st) (files st)))"
  by (simp add: run_exec_def Let_def)

lemma execute_first_attempt:
  assumes "ns = build_namespace (length (heap st)) pp"
    and "st1 = st\<lparr>heap := heap st @ [heap st ! df st]\<rparr>"
    and "r = exec env code ns (heap st1) (files st1)"
  shows "execute env sm q code cl pp st =
      (case raised r of
         Some exc \<Rightarrow>
           if exc_class exc \<noteq> Exception_class then ExecRaise exc (after_exec st1 code ns r)
           else capture_and_retry env sm q code cl (Some (exc_str exc)) r (after_exec st1 code ns r)
       | None \<Rightarrow> capture_and_retry env sm q code cl None r (after_exec st1 code ns r))"
proof -
  have dc: "df_copy st = (length (heap st), st1)"
    by (simp add: df_copy_def assms)
  show ?thesis
    unfolding execute_def dc using assms by (simp add: run_exec_eq split: option.splits)
qed

lemma capture_exec_log:
  "\<exists>rest. exec_log (executed_state (capture_and_retry env sm q code cl err r st)) = exec_log st @ rest"
proof (cases "getvalue r")
  case (Inl exc)
  then show ?thesis by (simp add: capture_and_retry_def)
next
  case (Inr out)
  then show ?thesis
    using retry_exec_log [of env sm q code cl err "strip out" "ns_after r" st]
    by (simp add: capture_and_retry_def)
qed

lemma execute_exec_log:
  "\<exists>rest. exec_log (executed_state (execute env sm q code cl pp st)) =
     exec_log st @ (code, build_namespace (length (heap st)) pp, heap st @ [heap st ! df st]) # rest"
proof -
  define ns where "ns = build_namespace (length (heap st)) pp"
  define st1 where "st1 = st\<lparr>heap := heap st @ [heap st ! df st]\<rparr>"
  define r where "r = exec env code ns (heap st1) (files st1)"
  define st2 where "st2 = after_exec st1 code ns r"
  have log2: "exec_log st2 = exec_log st @ [(code, ns, heap st @ [heap st ! df st])]"
    by (simp add: st2_def after_exec_def st1_def)
  note ex = execute_first_attempt [OF ns_def st1_def r_def, of sm q cl, folded st2_def]
  show ?thesis
  proof (cases "raised r")
    case None
    from capture_exec_log [of env sm q code cl None r st2]
    show ?thesis using None ex log2 ns_def by auto
  next
    case (Some exc)
    from capture_exec_log [of env sm q code cl "Some (exc_str exc)" r st2]
    show ?thesis using Some ex log2 ns_def by auto
  qed
qed

lemma process_query_after_code:
  assumes "request_code env cfg uuid_hex query st = GenCode code cl st1"
  shows "exec_log (final_state (process_query env cfg uuid_hex query st)) =
         exec_log (executed_state (execute env (build_system_prompt (plot_path env uuid_hex)) query
            code cl (plot_path env uuid_hex) st1))"
  using assms
  by (cases "execute env (build_system_prompt (plot_path env uuid_hex)) query
            code cl (plot_path env uuid_hex) st1")
     (simp_all add: process_query_def run_request_def assemble_state)

lemma dom_build_namespace:
  "dom (build_namespace a p) = {''df'', ''pd'', ''np'', ''plt'', ''sns'', ''PLOT_PATH'', ''os'', ''uuid''}"
  by (auto simp: build_namespace_def)

text \<open>
  C10. For every request that reaches execution, the namespace handed to the first
  \<open>exec\<close> binds exactly the six names the prompt documents and, beyond them,
  \<open>os\<close> and \<open>uuid\<close>, bound to the modules of these names.
\<close>

theorem namespace_has_os_and_uuid:
  assumes "request_code env cfg uuid_hex query st = GenCode code cl st1"
  shows "\<exists>ns h rest.
      exec_log (final_state (process_query env cfg uuid_hex query st)) =
        exec_log st1 @ (code, ns, h) # rest
    \<and> dom ns = set documented_names \<union> {''os'', ''uuid''}
    \<and> ns ''os'' = Some (Module ''os'') \<and> ns ''uuid'' = Some (Module ''uuid'')
    \<and> ''os'' \<notin> set documented_names \<and> ''uuid'' \<notin> set documented_names"
proof -
  let ?ns = "build_namespace (length (heap st1)) (plot_path env uuid_hex)"
  from execute_exec_log [of env "build_system_prompt (plot_path env uuid_hex)" query code cl
      "plot_path env uuid_hex" st1]
  obtain rest where "exec_log (final_state (process_query env cfg uuid_hex query st)) =
      exec_log st1 @ (code, ?ns, heap st1 @ [heap st1 ! df st1]) # rest"
    using process_query_after_code [OF assms] by auto
  moreover have "dom ?ns = set documented_names \<union> {''os'', ''uuid''}"
    by (auto simp: dom_build_namespace documented_names_def)
  moreover have "?ns ''os'' = Some (Module ''os'')" "?ns ''uuid'' = Some (Module ''uuid'')"
    by (simp_all add: build_namespace_def)
  moreover have "''os'' \<notin> set documented_names" "''uuid'' \<notin> set documented_names"
    by (simp_all add: documented_names_def)
  ultimately show ?thesis by blast
qed

lemma stub_request_code:
  "request_code (stub_env ''assert False'') cfg_ok uuid_hex0 ''How many survived?'' fresh_state =
     GenCode ''assert False'' (ChatGroq ''llama-3.3-70b-versatile'' ''gsk_test'')
       (fresh_state\<lparr>llm := Some (ChatGroq ''llama-3.3-70b-versatile'' ''gsk_test''),
          llm_log := [(ChatGroq ''llama-3.3-70b-versatile'' ''gsk_test'',
             [SystemMessage (build_system_prompt (plot_path (stub_env ''assert False'') uuid_hex0)),
              HumanMessage ''How many survived?''])]\<rparr>)"
  by (simp add: request_defs text_defs example_defs)

theorem namespace_has_os_and_uuid_witness:
  "\<exists>ns h rest.
      exec_log (final_state (process_query (stub_env ''assert False'') cfg_ok uuid_hex0
          ''How many survived?'' fresh_state)) =
        [(''assert False'', ns, h)] @ rest
    \<and> dom ns = set documented_names \<union> {''os'', ''uuid''}
    \<and> ns ''os'' = Some (Module ''os'') \<and> ns ''uuid'' = Some (Module ''uuid'')
    \<and> ''os'' \<notin> set documented_names \<and> ''uuid'' \<notin> set documented_names"
  using namespace_has_os_and_uuid [OF stub_request_code] by (simp add: fresh_state_def)

section \<open>The retry runs in the namespace of the first attempt\<close>

lemma retry_again:
  assumes "err \<noteq> []"
    and "invoke env (length (llm_log st)) cl
           [SystemMessage sm, HumanMessage q, HumanMessage (retry_msg err code)] = Inr content2"
  shows "exec_log (executed_state (retry env sm q code cl (Some err) [] ns st)) =
           exec_log st @ [(clean_code content2, ns, heap st)]"
  using assms
  by (simp add: retry_def truthy_def llm_invoke_def run_exec_eq after_exec_def retry_handler_state
      split: option.splits sum.splits)

text \<open>
  C9. When the first attempt fails with a message and no text, its capture buffer can
  be read and the model answers the retry, the second \<open>exec\<close> receives the namespace and the store exactly as the
  first \<open>exec\<close> left them: the bindings and mutations of the first attempt are
  there, no new copy of the dataset is made and no namespace is built again.
\<close>

theorem retry_reuses_namespace:
  assumes code: "request_code env cfg uuid_hex query st = GenCode code cl st1"
    and r1: "r1 = exec env code (build_namespace (length (heap st1)) (plot_path env uuid_hex))
                    (heap st1 @ [heap st1 ! df st1]) (files st1)"
    and fail: "raised r1 = Some e1" "exc_class e1 = Exception_class" "exc_str e1 \<noteq> []"
              "strip (stdout r1) = []"
    and readable: "\<not> stdout_closed r1"
    and again: "invoke env (length (llm_log st1)) cl
                  [SystemMessage (build_system_prompt (plot_path env uuid_hex)), HumanMessage query,
                   HumanMessage (retry_msg (exc_str e1) code)] = Inr content2"
  shows "exec_log (final_state (process_query env cfg uuid_hex query st)) =
           exec_log st1 @
             [(code, build_namespace (length (heap st1)) (plot_path env uuid_hex),
                 heap st1 @ [heap st1 ! df st1]),
              (clean_code content2, ns_after r1, heap_after r1)]"
proof -
  define ns where "ns = build_namespace (length (heap st1)) (plot_path env uuid_hex)"
  define st1' where "st1' = st1\<lparr>heap := heap st1 @ [heap st1 ! df st1]\<rparr>"
  define st2 where "st2 = after_exec st1' code ns r1"
  have r: "r1 = exec env code ns (heap st1') (files st1')"
    by (simp add: r1 ns_def st1'_def)
  have ex: "execute env (build_system_prompt (plot_path env uuid_hex)) query code cl
              (plot_path env uuid_hex) st1 =
            retry env (build_system_prompt (plot_path env uuid_hex)) query code cl
              (Some (exc_str e1)) [] (ns_after r1) st2"
    using execute_first_attempt [OF ns_def st1'_def r] fail readable
    by (simp add: st2_def capture_and_retry_def getvalue_def)
  have log2: "llm_log st2 = llm_log st1" "heap st2 = heap_after r1"
      "exec_log st2 = exec_log st1 @ [(code, ns, heap st1 @ [heap st1 ! df st1])]"
    by (simp_all add: st2_def after_exec_def st1'_def)
  from again have "invoke env (length (llm_log st2)) cl
      [SystemMessage (build_system_prompt (plot_path env uuid_hex)), HumanMessage query,
       HumanMessage (retry_msg (exc_str e1) code)] = Inr content2"
    by (simp add: log2)
  from retry_again [OF fail(3) this, of "ns_after r1"]
  show ?thesis
    using process_query_after_code [OF code] ex log2 by (simp add: ns_def)
qed

lemma mutate_request_code:
  "request_code (stub_env ''df.drop(df.index, inplace=True); x = 1; raise ValueError('boom')'') cfg_ok uuid_hex0
       ''Drop everything'' fresh_state =
     GenCode ''df.drop(df.index, inplace=True); x = 1; raise ValueError('boom')''
       (ChatGroq ''llama-3.3-70b-versatile'' ''gsk_test'')
       (fresh_state\<lparr>llm := Some (ChatGroq ''llama-3.3-70b-versatile'' ''gsk_test''),
          llm_log := [(ChatGroq ''llama-3.3-70b-versatile'' ''gsk_test'',
             [SystemMessage (build_system_prompt (plot_path
                 (stub_env ''df.drop(df.index, inplace=True); x = 1; raise ValueError('boom')'') uuid_hex0)),
              HumanMessage ''Drop everything''])]\<rparr>)"
  by (simp add: request_defs text_defs example_defs)

theorem retry_reuses_namespace_witness:
  "exec_log (final_state (process_query
       (stub_env ''df.drop(df.index, inplace=True); x = 1; raise ValueError('boom')'') cfg_ok uuid_hex0
       ''Drop everything'' fresh_state)) =
     [(''df.drop(df.index, inplace=True); x = 1; raise ValueError('boom')'',
         build_namespace 1 ''/app/backend/static/plot_01234567.png'', [titanic, titanic]),
      (''df.drop(df.index, inplace=True); x = 1; raise ValueError('boom')'',
         (build_namespace 1 ''/app/backend/static/plot_01234567.png'')(''x'' \<mapsto> Other ''1''),
         [titanic, []])]"
  using retry_reuses_namespace [OF mutate_request_code refl,
      of "PyExc Exception_class ''boom''"
         "''df.drop(df.index, inplace=True); x = 1; raise ValueError('boom')''"]
  by (simp add: request_defs text_defs example_defs)

section \<open>Response assembler: an error outranks the artifact\<close>

text \<open>
  C1. The specified precedence, that with no captured text and an artifact on disk the
  response is "Here is the visualisation:" with the image whether or not the execution
  ended in an error, does not hold in this code. Here the generated code saves a
  non-empty plot and then raises \<open>ValueError('boom')\<close> without printing, on the
  first attempt and on the retry. The assembler is reached with no text, the error
  message and the artifact on disk; the response is the formatted error message, with
  the image attached to it.
\<close>

theorem error_outranks_artifact:
  "assembling (run_request (stub_env ''plt.savefig(PLOT_PATH); raise ValueError('boom')'') cfg_ok uuid_hex0
       ''Plot the ages'' fresh_state) = Some ([], Some ''boom'')
   \<and> files (final_state (process_query (stub_env ''plt.savefig(PLOT_PATH); raise ValueError('boom')'') cfg_ok
       uuid_hex0 ''Plot the ages'' fresh_state)) plot_path0 = Some ''PNG''
   \<and> returned (process_query (stub_env ''plt.savefig(PLOT_PATH); raise ValueError('boom')'') cfg_ok uuid_hex0
       ''Plot the ages'' fresh_state) =
     Some \<lparr>response = error_response ''boom'', image_url = Some ''/static/plot_01234567.png''\<rparr>
   \<and> error_response ''boom'' \<noteq> ''Here is the visualisation:''"
  by (simp add: request_defs text_defs example_defs plot_path0_def error_response_def)

text \<open>Without an error message the assembler follows the specified precedence.\<close>

lemma visualisation_without_error:
  assumes "run_request env cfg uuid_hex query st = Assembling [] err st2"
    and "\<not> truthy err"
    and "files st2 (plot_path env uuid_hex) = Some content" and "content \<noteq> []"
  shows "process_query env cfg uuid_hex query st =
           Returned \<lparr>response = ''Here is the visualisation:'',
                     image_url = Some (''/static/'' @ plot_fname uuid_hex)\<rparr> st2"
  using assms
  by (simp add: process_query_def assemble_def check_plot_def build_response_def truthy_def)

section \<open>Retry controller: which failures are retried\<close>

text \<open>
  C3. The specified retry rule, that a retry happens exactly when the first execution
  raised an error and captured no text, and that a failed retry leaves its own error in
  the response, does not hold in this code, in two places. A first execution that
  raises an exception with an empty message (\<open>assert False\<close>) and prints nothing
  is not retried: the assembler gets the empty message, there is one model call and one
  \<open>exec\<close>, and the response says the analysis ran. And when the retry's execution
  raises an error whose message contains a quota phrase, the response is the quota
  message, which does not embed that error.
\<close>

theorem empty_error_message_skips_retry:
  "assembling (run_request (stub_env ''assert False'') cfg_ok uuid_hex0 ''How many survived?'' fresh_state) =
     Some ([], Some [])
   \<and> returned (process_query (stub_env ''assert False'') cfg_ok uuid_hex0 ''How many survived?'' fresh_state) =
     Some \<lparr>response = ''The analysis ran but produced no printable output. Try rephrasing.'',
           image_url = None\<rparr>
   \<and> length (llm_log (final_state (process_query (stub_env ''assert False'') cfg_ok uuid_hex0
        ''How many survived?'' fresh_state))) = 1
   \<and> map fst (exec_log (final_state (process_query (stub_env ''assert False'') cfg_ok uuid_hex0
        ''How many survived?'' fresh_state))) = [''assert False'']
   \<and> returned (process_query (stub_env ''raise ValueError('column quota missing')'') cfg_ok uuid_hex0
        ''How many survived?'' fresh_state) =
     Some \<lparr>response = quota_reached, image_url = None\<rparr>
   \<and> map fst (exec_log (final_state (process_query (stub_env ''raise ValueError('column quota missing')'')
        cfg_ok uuid_hex0 ''How many survived?'' fresh_state))) =
       [''raise ValueError('column quota missing')'', ''raise ValueError('column quota missing')'']"
  by (simp add: request_defs text_defs example_defs)

text \<open>
  What the retry block does in general: it calls the model again exactly when the error
  message is non-empty and no text was captured, it makes at most one more model call
  and one more \<open>exec\<close>, and a second failure that is an ordinary exception
  without a quota phrase leaves its own message for the assembler.
\<close>

lemma retry_decision:
  "llm_log (executed_state (retry env sm q code cl err t ns st)) \<noteq> llm_log st
     \<longleftrightarrow> truthy err \<and> t = []"
  by (simp add: retry_def llm_invoke_def run_exec_eq after_exec_def retry_handler_state
      split: sum.splits option.splits)

lemma retry_at_most_once:
  "length (exec_log (executed_state (retry env sm q code cl err t ns st))) \<le> Suc (length (exec_log st))
   \<and> length (llm_log (executed_state (retry env sm q code cl err t ns st))) \<le> Suc (length (llm_log st))"
  by (simp add: retry_def llm_invoke_def run_exec_eq after_exec_def retry_handler_state
      split: sum.splits option.splits)

lemma retry_error_embedded:
  assumes "err \<noteq> []"
    and "invoke env (length (llm_log st)) cl
           [SystemMessage sm, HumanMessage q, HumanMessage (retry_msg err code)] = Inr content2"
    and "raised (exec env (clean_code content2) ns (heap st) (files st)) = Some e2"
    and "exc_class e2 = Exception_class" and "\<not> is_quota_error (exc_str e2)"
  shows "\<exists>st'. retry env sm q code cl (Some err) [] ns st = ExecDone [] (Some (exc_str e2)) st'"
  using assms
  by (simp add: retry_def truthy_def llm_invoke_def run_exec_eq retry_handler_def)

section \<open>Totality of the request\<close>

lemma generate_code_no_raise:
  assumes "\<forall>n c ms e. invoke env n c ms = Inl e \<longrightarrow> exc_class e = Exception_class"
  shows "generate_code n env cfg sm q cl st \<noteq> GenRaise e st'"
proof (induction n arbitrary: cl st)
  case 0
  show ?case by simp
next
  case (Suc n)
  show ?case
  proof (cases "invoke env (length (llm_log st)) cl [SystemMessage sm, HumanMessage q]")
    case (Inr content)
    then show ?thesis by (simp add: llm_invoke_def)
  next
    case (Inl exc)
    with assms have cls: "exc_class exc = Exception_class" by blast
    show ?thesis
    proof (cases "try_next_model cfg (st\<lparr>llm_log := llm_log st @ [(cl, [SystemMessage sm, HumanMessage q])]\<rparr>)")
      case (Pair nxt st2)
      then show ?thesis using Inl cls Suc.IH
        by (cases nxt) (simp_all add: llm_invoke_def)
    qed
  qed
qed

lemma retry_handler_no_raise:
  "exc_class e2 = Exception_class \<Longrightarrow> retry_handler e2 t st \<noteq> ExecRaise e st'"
  by (simp add: retry_handler_def)

lemma retry_no_raise:
  assumes inv: "\<forall>n c ms e. invoke env n c ms = Inl e \<longrightarrow> exc_class e = Exception_class"
    and ex: "\<forall>code ns h fs e. raised (exec env code ns h fs) = Some e \<longrightarrow> exc_class e = Exception_class"
  shows "retry env sm q code cl err t ns st \<noteq> ExecRaise e st'"
proof (cases "truthy err \<and> t = []")
  case False
  then show ?thesis by (auto simp: retry_def)
next
  case True
  let ?ms = "[SystemMessage sm, HumanMessage q, HumanMessage (retry_msg (the err) code)]"
  let ?st1 = "st\<lparr>llm_log := llm_log st @ [(cl, ?ms)]\<rparr>"
  show ?thesis
  proof (cases "invoke env (length (llm_log st)) cl ?ms")
    case (Inl e2)
    with inv have "exc_class e2 = Exception_class" by blast
    then show ?thesis using True Inl
      by (simp add: retry_def llm_invoke_def retry_handler_no_raise)
  next
    case (Inr content)
    let ?r = "exec env (clean_code content) ns (heap ?st1) (files ?st1)"
    show ?thesis
    proof (cases "raised ?r")
      case None
      then show ?thesis using True Inr
        by (simp add: retry_def llm_invoke_def run_exec_def Let_def getvalue_def
            retry_handler_no_raise)
    next
      case (Some e2)
      with ex have "exc_class e2 = Exception_class" by blast
      then show ?thesis using True Inr Some
        by (simp add: retry_def llm_invoke_def run_exec_def Let_def retry_handler_no_raise)
    qed
  qed
qed

lemma execute_no_raise:
  assumes inv: "\<forall>n c ms e. invoke env n c ms = Inl e \<longrightarrow> exc_class e = Exception_class"
    and ex: "\<forall>code ns h fs e. raised (exec env code ns h fs) = Some e \<longrightarrow> exc_class e = Exception_class"
    and rd: "\<forall>code ns h fs. \<not> stdout_closed (exec env code ns h fs)"
  shows "execute env sm q code cl pp st \<noteq> ExecRaise e st'"
proof -
  define ns where "ns = build_namespace (length (heap st)) pp"
  define st1 where "st1 = st\<lparr>heap := heap st @ [heap st ! df st]\<rparr>"
  define r where "r = exec env code ns (heap st1) (files st1)"
  note unf = execute_first_attempt [OF ns_def st1_def r_def, of sm q cl]
  from rd have "\<not> stdout_closed r" unfolding r_def by blast
  then have cap: "capture_and_retry env sm q code cl err r st2 \<noteq> ExecRaise e st'" for err st2
    using retry_no_raise [OF inv ex] by (simp add: capture_and_retry_def getvalue_def)
  show ?thesis
  proof (cases "raised r")
    case None
    then show ?thesis using unf cap by simp
  next
    case (Some e1)
    with ex have "exc_class e1 = Exception_class" unfolding r_def by blast
    then show ?thesis using Some unf cap by simp
  qed
qed

text \<open>
  C5, as amended. If every failure of the model call and of the generated code is an
  exception that derives from \<open>Exception\<close>, and the generated code acts on the
  process only through its namespace, the store, the files and the text it prints to
  the capture buffer, which it leaves open, \<open>process_query\<close> returns a response
  and an image reference, whatever the question, the configuration and the state.
\<close>

theorem process_query_returns:
  assumes inv: "\<forall>n c ms e. invoke env n c ms = Inl e \<longrightarrow> exc_class e = Exception_class"
    and ex: "\<forall>code ns h fs e. raised (exec env code ns h fs) = Some e \<longrightarrow> exc_class e = Exception_class"
    and rd: "\<forall>code ns h fs. \<not> stdout_closed (exec env code ns h fs)"
  shows "\<exists>r st'. process_query env cfg uuid_hex query st = Returned r st'"
proof -
  let ?sm = "build_system_prompt (plot_path env uuid_hex)"
  have gen: "request_code env cfg uuid_hex query st \<noteq> GenRaise e st'" for e st'
    using generate_code_no_raise [OF inv]
    by (simp add: request_code_def split: prod.splits sum.splits)
  show ?thesis
  proof (cases "request_code env cfg uuid_hex query st")
    case (GenCode code cl st1)
    show ?thesis
    proof (cases "execute env ?sm query code cl (plot_path env uuid_hex) st1")
      case (ExecDone t err st2)
      then show ?thesis using GenCode
        by (simp add: process_query_def run_request_def assemble_def split: prod.splits)
    next
      case (ExecReturn r st2)
      then show ?thesis using GenCode by (simp add: process_query_def run_request_def)
    next
      case (ExecRaise e st2)
      with execute_no_raise [OF inv ex rd] show ?thesis by blast
    qed
  next
    case (GenReturn r st1)
    then show ?thesis by (simp add: process_query_def run_request_def)
  next
    case (GenRaise e st1)
    with gen show ?thesis by blast
  next
    case (GenNone st1)
    then show ?thesis by (simp add: process_query_def run_request_def)
  qed
qed

lemma script_exec_ordinary:
  "\<forall>code ns h fs e. raised (script_exec code ns h fs) = Some e \<longrightarrow> exc_class e = Exception_class"
  by (auto simp: script_exec_def split: if_splits)

lemma script_exec_readable:
  "\<forall>code ns h fs. \<not> stdout_closed (script_exec code ns h fs)"
  by (simp add: script_exec_def)

theorem process_query_returns_witness:
  "\<exists>r st'. process_query (stub_env ''plt.savefig(PLOT_PATH); raise ValueError('boom')'') cfg_ok uuid_hex0
      ''Plot the ages'' fresh_state = Returned r st'"
proof -
  have "\<forall>n c ms e. invoke (stub_env ''plt.savefig(PLOT_PATH); raise ValueError('boom')'') n c ms = Inl e
          \<longrightarrow> exc_class e = Exception_class"
    by (simp add: stub_env_def)
  moreover have "\<forall>code ns h fs e.
      raised (exec (stub_env ''plt.savefig(PLOT_PATH); raise ValueError('boom')'') code ns h fs) = Some e
          \<longrightarrow> exc_class e = Exception_class"
    using script_exec_ordinary by (simp add: stub_env_def)
  moreover have "\<forall>code ns h fs.
      \<not> stdout_closed (exec (stub_env ''plt.savefig(PLOT_PATH); raise ValueError('boom')'') code ns h fs)"
    using script_exec_readable by (simp add: stub_env_def)
  ultimately show ?thesis by (rule process_query_returns)
qed

text \<open>
  Without that restriction the property fails: generated code that raises \<open>SystemExit\<close> is not
  caught by \<open>except Exception\<close>, and the exception leaves \<open>process_query\<close>.
\<close>

theorem system_exit_propagates:
  "propagated (process_query exit_env cfg_ok uuid_hex0 ''How many survived?'' fresh_state) =
     Some (PyExc BaseException_class ''bye'')"
  by (simp add: request_defs text_defs example_defs)

text \<open>
  The reading of the capture buffer after the first attempt stands outside every
  \<open>try\<close>: when the generated code closed \<open>sys.stdout\<close> and finished
  normally, the \<open>ValueError\<close> of \<open>getvalue\<close> leaves \<open>process_query\<close>
  as well, after one model call and one \<open>exec\<close>.
\<close>

lemma closed_stdout_propagates:
  "propagated (process_query close_env cfg_ok uuid_hex0 ''How many survived?'' fresh_state) =
     Some (PyExc Exception_class ''I/O operation on closed file'')
   \<and> length (llm_log (final_state (process_query close_env cfg_ok uuid_hex0 ''How many survived?''
        fresh_state))) = 1
   \<and> length (exec_log (final_state (process_query close_env cfg_ok uuid_hex0 ''How many survived?''
        fresh_state))) = 1"
  by (simp add: request_defs text_defs example_defs)

section \<open>Artifact detection\<close>

text \<open>
  C6, as amended. For a request that reaches the check for a saved plot: a non-empty
  file at the output path gives the image reference \<open>/static/\<close> plus the file name
  and is left in place; a zero-byte file gives no image and is removed; no file gives
  no image.
\<close>

theorem artifact_detection:
  assumes "run_request env cfg uuid_hex query st = Assembling t err st2"
  shows "\<exists>r st3. process_query env cfg uuid_hex query st = Returned r st3
    \<and> (\<forall>content. files st2 (plot_path env uuid_hex) = Some content \<longrightarrow> content \<noteq> [] \<longrightarrow>
          image_url r = Some (''/static/'' @ plot_fname uuid_hex) \<and> st3 = st2)
    \<and> (files st2 (plot_path env uuid_hex) = Some [] \<longrightarrow>
          image_url r = None \<and> files st3 (plot_path env uuid_hex) = None)
    \<and> (files st2 (plot_path env uuid_hex) = None \<longrightarrow> image_url r = None \<and> st3 = st2)"
proof (cases "files st2 (plot_path env uuid_hex)")
  case None
  then show ?thesis using assms
    by (simp add: process_query_def assemble_def check_plot_def)
next
  case (Some content)
  then show ?thesis using assms
    by (cases "content = []") (simp_all add: process_query_def assemble_def check_plot_def)
qed

theorem artifact_detection_witness:
  "(\<exists>r st3. process_query (stub_env ''plt.savefig(PLOT_PATH)'') cfg_ok uuid_hex0 ''Plot the ages'' fresh_state
        = Returned r st3 \<and> image_url r = Some ''/static/plot_01234567.png'')
   \<and> (\<exists>r st3. process_query (stub_env ''open(PLOT_PATH, 'w').close()'') cfg_ok uuid_hex0 ''Plot the ages''
        fresh_state = Returned r st3 \<and> image_url r = None \<and> files st3 plot_path0 = None)"
proof -
  let ?e1 = "stub_env ''plt.savefig(PLOT_PATH)''"
  let ?e2 = "stub_env ''open(PLOT_PATH, 'w').close()''"
  have pp: "plot_path ?e1 uuid_hex0 = plot_path0" "plot_path ?e2 uuid_hex0 = plot_path0"
    by (simp_all add: request_defs example_defs plot_path0_def)
  have fn: "plot_fname uuid_hex0 = ''plot_01234567.png''"
    by (simp add: plot_fname_def uuid_hex0_def)
  obtain st2 where r1: "run_request ?e1 cfg_ok uuid_hex0 ''Plot the ages'' fresh_state = Assembling [] None st2"
    and f1: "files st2 plot_path0 = Some ''PNG''"
    by (simp add: request_defs text_defs example_defs plot_path0_def)
  obtain st2' where r2: "run_request ?e2 cfg_ok uuid_hex0 ''Plot the ages'' fresh_state = Assembling [] None st2'"
    and f2: "files st2' plot_path0 = Some []"
    by (simp add: request_defs text_defs example_defs plot_path0_def)
  from artifact_detection [OF r1] f1 have
    "\<exists>r st3. process_query ?e1 cfg_ok uuid_hex0 ''Plot the ages'' fresh_state = Returned r st3
        \<and> image_url r = Some ''/static/plot_01234567.png''"
    by (auto simp: pp fn)
  moreover from artifact_detection [OF r2] f2 have
    "\<exists>r st3. process_query ?e2 cfg_ok uuid_hex0 ''Plot the ages'' fresh_state = Returned r st3
        \<and> image_url r = None \<and> files st3 plot_path0 = None"
    by (auto simp: pp)
  ultimately show ?thesis by blast
qed

text \<open>
  Without that restriction the property fails, namely when the request ends in the retry's quota return: the
  first attempt wrote the file and raised, the retry's model call raised a quota error,
  and the result has no image while the file, non-empty or zero-byte, stays on disk.
\<close>

theorem quota_on_retry_drops_artifact:
  "map_option image_url (returned (process_query
       (quota_on_retry_env ''plt.savefig(PLOT_PATH); raise ValueError('boom')'') cfg_ok uuid_hex0
       ''Plot the ages'' fresh_state)) = Some None
   \<and> files (final_state (process_query
       (quota_on_retry_env ''plt.savefig(PLOT_PATH); raise ValueError('boom')'') cfg_ok uuid_hex0
       ''Plot the ages'' fresh_state)) plot_path0 = Some ''PNG''
   \<and> map_option image_url (returned (process_query
       (quota_on_retry_env ''open(PLOT_PATH, 'w').close(); raise ValueError('boom')'') cfg_ok uuid_hex0
       ''Plot the ages'' fresh_state)) = Some None
   \<and> files (final_state (process_query
       (quota_on_retry_env ''open(PLOT_PATH, 'w').close(); raise ValueError('boom')'') cfg_ok uuid_hex0
       ''Plot the ages'' fresh_state)) plot_path0 = Some []"
  by (simp add: request_defs text_defs example_defs plot_path0_def)

section \<open>Dataset isolation\<close>

lemma generate_code_frame:
  "heap (gen_state (generate_code n env cfg sm q cl st)) = heap st \<and>
   df (gen_state (generate_code n env cfg sm q cl st)) = df st \<and>
   exec_log (gen_state (generate_code n env cfg sm q cl st)) = exec_log st"
proof (induction n arbitrary: cl st)
  case 0
  show ?case by simp
next
  case (Suc n)
  let ?st1 = "st\<lparr>llm_log := llm_log st @ [(cl, [SystemMessage sm, HumanMessage q])]\<rparr>"
  show ?case
  proof (cases "invoke env (length (llm_log st)) cl [SystemMessage sm, HumanMessage q]")
    case (Inr content)
    then show ?thesis by (simp add: llm_invoke_def)
  next
    case (Inl exc)
    show ?thesis
    proof (cases "length MODEL_CASCADE \<le> model_index st + 1")
      case True
      then show ?thesis using Inl
        by (simp add: llm_invoke_def try_next_model_def Let_def)
    next
      case False
      then show ?thesis using Inl Suc.IH
        by (simp add: llm_invoke_def try_next_model_def Let_def)
    qed
  qed
qed

lemma request_code_frame:
  "heap (gen_state (request_code env cfg uuid_hex query st)) = heap st \<and>
   df (gen_state (request_code env cfg uuid_hex query st)) = df st \<and>
   exec_log (gen_state (request_code env cfg uuid_hex query st)) = exec_log st"
proof (cases "llm st")
  case None
  then show ?thesis
    using generate_code_frame [of "length MODEL_CASCADE" env cfg _ query _
        "st\<lparr>llm := Some (ChatGroq (GROQ_MODEL cfg) (GROQ_API_KEY cfg))\<rparr>"]
    by (simp add: request_code_def get_llm_def Let_def)
next
  case (Some c)
  then show ?thesis
    using generate_code_frame [of "length MODEL_CASCADE" env cfg _ query c st]
    by (simp add: request_code_def get_llm_def)
qed

lemma build_namespace_refs: "DataFrame b \<in> ran (build_namespace a p) \<Longrightarrow> b = a"
  by (auto simp: build_namespace_def ran_def split: if_splits)

lemma after_exec_intact:
  assumes c: "confined (exec env)" and i: "intact d v st" and n: "DataFrame d \<notin> ran ns"
    and l: "logged_apart d v base st"
    and r: "r = exec env code ns (heap st) (files st)"
  shows "intact d v (after_exec st code ns r)" "DataFrame d \<notin> ran (ns_after r)"
    "logged_apart d v base (after_exec st code ns r)"
proof -
  from i have d: "d < length (heap st)" "heap st ! d = v" "df st = d" by (simp_all add: intact_def)
  from c have len: "length (heap st) \<le> length (heap_after r)"
    and fr: "heap_after r ! d = heap st ! d \<and> DataFrame d \<notin> ran (ns_after r)"
    using d(1) n unfolding confined_def r by blast+
  show "intact d v (after_exec st code ns r)"
    using d len fr by (simp add: intact_def after_exec_def)
  show "DataFrame d \<notin> ran (ns_after r)" using fr by simp
  from l have b: "base \<le> length (exec_log st)" by (simp add: logged_apart_def)
  then have "drop base (exec_log st @ [(code, ns, heap st)]) = drop base (exec_log st) @ [(code, ns, heap st)]"
    by simp
  then show "logged_apart d v base (after_exec st code ns r)"
    using l n d b by (auto simp: logged_apart_def after_exec_def)
qed

lemma retry_intact:
  assumes c: "confined (exec env)" and i: "intact d v st" and n: "DataFrame d \<notin> ran ns"
    and l: "logged_apart d v base st"
  shows "intact d v (executed_state (retry env sm q code cl err t ns st)) \<and>
         logged_apart d v base (executed_state (retry env sm q code cl err t ns st))"
proof (cases "truthy err \<and> t = []")
  case False
  then show ?thesis using i l by (auto simp: retry_def)
next
  case True
  let ?ms = "[SystemMessage sm, HumanMessage q, HumanMessage (retry_msg (the err) code)]"
  define st1 where "st1 = st\<lparr>llm_log := llm_log st @ [(cl, ?ms)]\<rparr>"
  have i1: "intact d v st1" and l1: "logged_apart d v base st1"
    using i l by (simp_all add: st1_def intact_def logged_apart_def)
  show ?thesis
  proof (cases "invoke env (length (llm_log st)) cl ?ms")
    case (Inl e2)
    then show ?thesis using True i1 l1
      by (simp add: retry_def llm_invoke_def retry_handler_state st1_def)
  next
    case (Inr content)
    define r where "r = exec env (clean_code content) ns (heap st1) (files st1)"
    note ae = after_exec_intact [OF c i1 n l1 r_def]
    have "executed_state (retry env sm q code cl err t ns st) =
            after_exec st1 (clean_code content) ns r"
      using True Inr
      by (simp add: retry_def llm_invoke_def run_exec_eq retry_handler_state st1_def r_def
          split: option.splits sum.splits)
    then show ?thesis using ae by simp
  qed
qed

lemma capture_intact:
  assumes c: "confined (exec env)" and i: "intact d v st" and n: "DataFrame d \<notin> ran (ns_after r)"
    and l: "logged_apart d v base st"
  shows "intact d v (executed_state (capture_and_retry env sm q code cl err r st)) \<and>
         logged_apart d v base (executed_state (capture_and_retry env sm q code cl err r st))"
proof (cases "getvalue r")
  case (Inl exc)
  then show ?thesis using i l by (simp add: capture_and_retry_def)
next
  case (Inr out)
  then show ?thesis
    using retry_intact [OF c i n l, of sm q code cl err "strip out"]
    by (simp add: capture_and_retry_def)
qed

lemma execute_intact:
  assumes c: "confined (exec env)" and i: "intact d v st"
  shows "intact d v (executed_state (execute env sm q code cl pp st)) \<and>
         logged_apart d v (length (exec_log st)) (executed_state (execute env sm q code cl pp st))"
proof -
  define ns where "ns = build_namespace (length (heap st)) pp"
  define st1 where "st1 = st\<lparr>heap := heap st @ [heap st ! df st]\<rparr>"
  define r where "r = exec env code ns (heap st1) (files st1)"
  note unf = execute_first_attempt [OF ns_def st1_def r_def, of sm q cl]
  from i have d: "d < length (heap st)" "heap st ! d = v" "df st = d" by (simp_all add: intact_def)
  have i1: "intact d v st1"
    using d by (simp add: intact_def st1_def nth_append)
  have n: "DataFrame d \<notin> ran ns"
    using d(1) build_namespace_refs [of d "length (heap st)" pp] by (auto simp: ns_def)
  have l1: "logged_apart d v (length (exec_log st)) st1"
    by (simp add: logged_apart_def st1_def)
  note ae = after_exec_intact [OF c i1 n l1 r_def]
  show ?thesis
  proof (cases "raised r")
    case None
    then show ?thesis using unf capture_intact [OF c ae(1) ae(2) ae(3)] by simp
  next
    case (Some e1)
    then show ?thesis using unf capture_intact [OF c ae(1) ae(2) ae(3)] ae by simp
  qed
qed

lemma first_exec_gets_copy:
  assumes "request_code env cfg uuid_hex query st = GenCode code cl st1"
  shows "\<exists>ns h rest.
      drop (length (exec_log st)) (exec_log (final_state (process_query env cfg uuid_hex query st))) =
        (code, ns, h) # rest
    \<and> ns ''df'' = Some (DataFrame (length (heap st)))
    \<and> length (heap st) < length h
    \<and> h ! length (heap st) = heap st ! df st"
proof -
  from request_code_frame [of env cfg uuid_hex query st] assms
  have fr: "heap st1 = heap st" "df st1 = df st" "exec_log st1 = exec_log st" by simp_all
  let ?ns = "build_namespace (length (heap st)) (plot_path env uuid_hex)"
  let ?h = "heap st @ [heap st ! df st]"
  from execute_exec_log [of env "build_system_prompt (plot_path env uuid_hex)" query code cl
      "plot_path env uuid_hex" st1]
  obtain rest where "exec_log (final_state (process_query env cfg uuid_hex query st)) =
      exec_log st @ (code, ?ns, ?h) # rest"
    using process_query_after_code [OF assms] fr by auto
  then have "drop (length (exec_log st)) (exec_log (final_state (process_query env cfg uuid_hex query st))) =
      (code, ?ns, ?h) # rest" by simp
  moreover have "?ns ''df'' = Some (DataFrame (length (heap st)))"
    by (simp add: build_namespace_def)
  moreover have "length (heap st) < length ?h" "?h ! length (heap st) = heap st ! df st"
    by simp_all
  ultimately show ?thesis by blast
qed

text \<open>
  C8, as amended. The first \<open>exec\<close> of a request has \<open>df\<close> bound to a table
  allocated for this request, with the contents of the canonical one. For generated code
  that reaches tables only through the bindings of its namespace, no request changes the
  canonical table: \<open>_df\<close> refers to the same table with the same contents
  afterwards, and every \<open>exec\<close> of the request, first attempt or retry, ran in a
  namespace that does not refer to it while it held its original contents.
\<close>

theorem canonical_table_untouched:
  assumes "confined (exec env)" and "df st < length (heap st)"
  shows "df (final_state (process_query env cfg uuid_hex query st)) = df st
    \<and> df st < length (heap (final_state (process_query env cfg uuid_hex query st)))
    \<and> heap (final_state (process_query env cfg uuid_hex query st)) ! df st = heap st ! df st
    \<and> (\<forall>(code, ns, h) \<in> set (drop (length (exec_log st))
            (exec_log (final_state (process_query env cfg uuid_hex query st)))).
          DataFrame (df st) \<notin> ran ns \<and> h ! df st = heap st ! df st)
    \<and> (\<forall>code cl st1. request_code env cfg uuid_hex query st = GenCode code cl st1 \<longrightarrow>
          (\<exists>ns h rest.
             drop (length (exec_log st))
               (exec_log (final_state (process_query env cfg uuid_hex query st))) = (code, ns, h) # rest
           \<and> ns ''df'' = Some (DataFrame (length (heap st)))
           \<and> length (heap st) < length h
           \<and> h ! length (heap st) = heap st ! df st))"
proof -
  let ?d = "df st" and ?v = "heap st ! df st"
  let ?out = "process_query env cfg uuid_hex query st"
  let ?g = "request_code env cfg uuid_hex query st"
  let ?sm = "build_system_prompt (plot_path env uuid_hex)"
  note fr = request_code_frame [of env cfg uuid_hex query st]
  have ig: "intact ?d ?v (gen_state ?g)" "logged_apart ?d ?v (length (exec_log st)) (gen_state ?g)"
    using assms(2) fr by (simp_all add: intact_def logged_apart_def)
  have "intact ?d ?v (final_state ?out) \<and> logged_apart ?d ?v (length (exec_log st)) (final_state ?out)"
  proof (cases ?g)
    case (GenCode code cl st1)
    with ig fr have i1: "intact ?d ?v st1" and e1: "exec_log st1 = exec_log st" by simp_all
    note ex = execute_intact [OF assms(1) i1, of ?sm query code cl "plot_path env uuid_hex"]
    show ?thesis
    proof (cases "execute env ?sm query code cl (plot_path env uuid_hex) st1")
      case (ExecDone t err st2)
      then show ?thesis using GenCode ex e1
        by (simp add: process_query_def run_request_def intact_def logged_apart_def assemble_state)
    next
      case (ExecReturn r st2)
      then show ?thesis using GenCode ex e1 by (simp add: process_query_def run_request_def)
    next
      case (ExecRaise e st2)
      then show ?thesis using GenCode ex e1 by (simp add: process_query_def run_request_def)
    qed
  next
    case (GenReturn r st1)
    then show ?thesis using ig by (simp add: process_query_def run_request_def)
  next
    case (GenRaise e st1)
    then show ?thesis using ig by (simp add: process_query_def run_request_def)
  next
    case (GenNone st1)
    then show ?thesis using ig by (simp add: process_query_def run_request_def)
  qed
  then have "df (final_state ?out) = df st"
      "df st < length (heap (final_state ?out))"
      "heap (final_state ?out) ! df st = heap st ! df st"
      "\<forall>(code, ns, h) \<in> set (drop (length (exec_log st)) (exec_log (final_state ?out))).
          DataFrame (df st) \<notin> ran ns \<and> h ! df st = heap st ! df st"
    by (simp_all add: intact_def logged_apart_def)
  then show ?thesis using first_exec_gets_copy [of env cfg uuid_hex query st] by blast
qed

lemma script_exec_confined: "confined script_exec"
  unfolding confined_def
proof (intro allI conjI impI)
  fix code :: string and ns :: namespace and h :: "string list list" and fs :: filesystem
  show "length h \<le> length (heap_after (script_exec code ns h fs))"
    by (simp add: script_exec_def drop_rows_def split: option.splits pyval.splits)
next
  fix code :: string and ns :: namespace and h :: "string list list" and fs :: filesystem and a
  assume a: "a < length h" "DataFrame a \<notin> ran ns"
  have "ns ''df'' \<noteq> Some (DataFrame a)" using a(2) by (auto simp: ran_def)
  then have "drop_rows ns h ! a = h ! a"
    by (auto simp: drop_rows_def split: option.splits pyval.splits)
  then show "heap_after (script_exec code ns h fs) ! a = h ! a"
    by (simp add: script_exec_def)
  have "DataFrame a \<notin> ran (ns(''x'' \<mapsto> Other ''1''))"
    using a(2) by (auto simp: ran_def split: if_splits)
  then show "DataFrame a \<notin> ran (ns_after (script_exec code ns h fs))"
    using a(2) by (simp add: script_exec_def)
qed

theorem canonical_table_untouched_witness:
  "heap (final_state (process_query
       (stub_env ''df.drop(df.index, inplace=True); x = 1; raise ValueError('boom')'') cfg_ok uuid_hex0
       ''Drop everything'' fresh_state)) ! 0 = titanic
   \<and> heap (final_state (process_query
       (stub_env ''df.drop(df.index, inplace=True); x = 1; raise ValueError('boom')'') cfg_ok uuid_hex0
       ''Drop everything'' fresh_state)) ! 1 = []
   \<and> (\<exists>ns h rest. exec_log (final_state (process_query
       (stub_env ''df.drop(df.index, inplace=True); x = 1; raise ValueError('boom')'') cfg_ok uuid_hex0
       ''Drop everything'' fresh_state)) =
         (''df.drop(df.index, inplace=True); x = 1; raise ValueError('boom')'', ns, h) # rest
       \<and> ns ''df'' = Some (DataFrame 1) \<and> h ! 1 = titanic)"
proof -
  let ?env = "stub_env ''df.drop(df.index, inplace=True); x = 1; raise ValueError('boom')''"
  let ?out = "process_query ?env cfg_ok uuid_hex0 ''Drop everything'' fresh_state"
  have c: "confined (exec ?env)" by (simp add: stub_env_def script_exec_confined)
  have d: "df fresh_state < length (heap fresh_state)" by (simp add: fresh_state_def)
  note t = canonical_table_untouched [OF c d, of cfg_ok uuid_hex0 "''Drop everything''"]
  from t have "heap (final_state ?out) ! 0 = titanic"
    by (simp add: fresh_state_def)
  moreover have "heap (final_state ?out) ! 1 = []"
    by (simp add: request_defs text_defs example_defs)
  moreover have "\<exists>ns h rest. exec_log (final_state ?out) =
         (''df.drop(df.index, inplace=True); x = 1; raise ValueError('boom')'', ns, h) # rest
       \<and> ns ''df'' = Some (DataFrame 1) \<and> h ! 1 = titanic"
  proof -
    from t mutate_request_code obtain ns h rest where
      "drop (length (exec_log fresh_state)) (exec_log (final_state ?out)) =
         (''df.drop(df.index, inplace=True); x = 1; raise ValueError('boom')'', ns, h) # rest"
      "ns ''df'' = Some (DataFrame (length (heap fresh_state)))"
      "h ! length (heap fresh_state) = heap fresh_state ! df fresh_state"
      by blast
    then show ?thesis by (simp add: fresh_state_def)
  qed
  ultimately show ?thesis by simp
qed

text \<open>
  Without that restriction the property fails: generated code runs in the process with
  the full builtins, so it can import the module that owns \<open>_df\<close> and change the
  canonical table in place. Here it empties the table; the request answers normally and
  leaves the process with an empty canonical table.
\<close>

theorem import_mutates_canonical_table:
  "heap fresh_state ! df fresh_state = titanic \<and> titanic \<noteq> []
   \<and> returned (process_query reach_env cfg_ok uuid_hex0 ''Drop all rows'' fresh_state) =
       Some \<lparr>response = ''0'', image_url = None\<rparr>
   \<and> df (final_state (process_query reach_env cfg_ok uuid_hex0 ''Drop all rows'' fresh_state)) =
       df fresh_state
   \<and> heap (final_state (process_query reach_env cfg_ok uuid_hex0 ''Drop all rows'' fresh_state)) !
       df fresh_state = []"
  by (simp add: request_defs text_defs example_defs titanic_def)

section \<open>Code sanitizer: idempotence and fence removal\<close>



























end
